theory Spec2Isabelle
  imports Main "HOL-Library.AList" "HOL-Library.Multiset"
begin

section \<open>Python values, errors and strings\<close>

text \<open>
  The values that travel through the repository layer (\<^verbatim>\<open>repo.py\<close>) and the table view
  (\<^verbatim>\<open>app.py\<close>): \<^verbatim>\<open>None\<close>, booleans, unbounded integers, floats, strings, lists and
  dictionaries with string keys. A finite float is kept as mantissa and binary exponent
  (\<open>PFloat m e\<close> is \<open>m * 2^e\<close>). Strings are ASCII byte strings.
\<close>

datatype pyval =
    PNone
  | PBool bool
  | PInt int
  | PFloat int int
  | PStr string
  | PList "pyval list"
  | PDict "(string \<times> pyval) list"

text \<open>
  Every \<^verbatim>\<open>raise\<close> of the source and every failure of the storage engine is a value.
  \<open>ValueError\<close> carries the message of the source (accents dropped).
\<close>

datatype error =
    ValueError string
  | KeyError string
  | TypeError
  | AttributeError
  | IndexError
  | RecursionError
  | IntegrityError
  | OperationalError

text \<open>Python truthiness (\<^verbatim>\<open>if x\<close>, \<^verbatim>\<open>x or y\<close>, \<^verbatim>\<open>not x\<close>).\<close>

fun truthy :: "pyval \<Rightarrow> bool" where
  "truthy PNone = False"
| "truthy (PBool b) = b"
| "truthy (PInt i) = (i \<noteq> 0)"
| "truthy (PFloat m e) = (m \<noteq> 0)"
| "truthy (PStr s) = (s \<noteq> [])"
| "truthy (PList xs) = (xs \<noteq> [])"
| "truthy (PDict kvs) = (kvs \<noteq> [])"

text \<open>\<^verbatim>\<open>isinstance(x, int)\<close>: \<^verbatim>\<open>bool\<close> is a subclass of \<^verbatim>\<open>int\<close> in Python.\<close>

fun isinstance_int :: "pyval \<Rightarrow> bool" where
  "isinstance_int (PInt i) = True"
| "isinstance_int (PBool b) = True"
| "isinstance_int v = False"

fun isinstance_str :: "pyval \<Rightarrow> bool" where
  "isinstance_str (PStr s) = True"
| "isinstance_str v = False"

text \<open>Decimal rendering of integers, as \<^verbatim>\<open>str(i)\<close> and the f-strings of the source do.\<close>

definition digit_char :: "nat \<Rightarrow> char" where
  "digit_char d = char_of (48 + d)"

fun str_nat :: "nat \<Rightarrow> string" where
  "str_nat n = (if n < 10 then [digit_char n] else str_nat (n div 10) @ [digit_char (n mod 10)])"

declare str_nat.simps [simp del]

definition str_int :: "int \<Rightarrow> string" where
  "str_int i = (if i < 0 then CHR ''-'' # str_nat (nat (- i)) else str_nat (nat i))"

text \<open>
  \<^verbatim>\<open>str.strip()\<close>, \<^verbatim>\<open>str.lower()\<close> and \<^verbatim>\<open>str.upper()\<close> on ASCII. The whitespace
  characters are those \<^verbatim>\<open>str.isspace\<close> accepts below 128.
\<close>

definition is_space :: "char \<Rightarrow> bool" where
  "is_space c \<longleftrightarrow> (of_char c :: nat) \<in> {9, 10, 11, 12, 13, 28, 29, 30, 31, 32}"

definition py_strip :: "string \<Rightarrow> string" where
  "py_strip s = rev (dropWhile is_space (rev (dropWhile is_space s)))"

definition lower_char :: "char \<Rightarrow> char" where
  "lower_char c = (let n = (of_char c :: nat) in if 65 \<le> n \<and> n \<le> 90 then char_of (n + 32) else c)"

definition upper_char :: "char \<Rightarrow> char" where
  "upper_char c = (let n = (of_char c :: nat) in if 97 \<le> n \<and> n \<le> 122 then char_of (n - 32) else c)"

definition py_lower :: "string \<Rightarrow> string" where
  "py_lower s = map lower_char s"

definition py_upper :: "string \<Rightarrow> string" where
  "py_upper s = map upper_char s"

section \<open>The catalog and the record tables\<close>

text \<open>
  One record per row of \<^verbatim>\<open>meta_projects\<close>, \<^verbatim>\<open>meta_tables\<close> and \<^verbatim>\<open>meta_fields\<close>
  (\<^verbatim>\<open>_init_db\<close>). \<open>f_options_json\<close> is the value whose JSON text the column holds
  (\<^verbatim>\<open>json.dumps(options)\<close>).
\<close>

record project_row =
  p_id :: int
  p_name :: string
  p_parent_id :: "int option"
  p_color :: string
  p_created_at :: string
  p_updated_at :: string

record table_row =
  t_id :: int
  t_name :: string
  t_project_id :: "int option"
  t_created_at :: string
  t_updated_at :: string

record field_row =
  f_id :: int
  f_table_id :: int
  f_name :: string
  f_ftype :: string
  f_required :: int
  f_active :: int
  f_position :: "int option"
  f_options_json :: pyval
  f_created_at :: string
  f_updated_at :: string

text \<open>
  \<^verbatim>\<open>_ddl_for_field\<close> returns one of three column declarations:
  \<^verbatim>\<open>TEXT NOT NULL DEFAULT ''\<close>, \<^verbatim>\<open>REAL NOT NULL DEFAULT 0\<close> and
  \<^verbatim>\<open>INTEGER NOT NULL DEFAULT 0\<close>; \<open>ddl_default\<close> is the default each declares.
\<close>

datatype ddl = DDL_TEXT | DDL_REAL | DDL_INTEGER

definition ddl_for_field :: "string \<Rightarrow> error + ddl" where
  "ddl_for_field ftype =
     (if ftype = ''text'' then Inr DDL_TEXT
      else if ftype = ''number'' then Inr DDL_REAL
      else if ftype = ''date'' then Inr DDL_TEXT
      else if ftype = ''bool'' then Inr DDL_INTEGER
      else if ftype = ''file'' then Inr DDL_TEXT
      else if ftype = ''image'' then Inr DDL_TEXT
      else if ftype = ''path'' then Inr DDL_TEXT
      else if ftype = ''select'' then Inr DDL_TEXT
      else if ftype = ''relation'' then Inr DDL_INTEGER
      else Inl (ValueError (''Tipo no soportado: '' @ ftype)))"

fun ddl_default :: "ddl \<Rightarrow> pyval" where
  "ddl_default DDL_TEXT = PStr []"
| "ddl_default DDL_REAL = PFloat 0 0"
| "ddl_default DDL_INTEGER = PInt 0"

text \<open>
  A physical table \<^verbatim>\<open>data_<table_id>\<close>: the system columns \<^verbatim>\<open>id\<close>, \<^verbatim>\<open>created_at\<close>,
  \<^verbatim>\<open>updated_at\<close> are fields of every row; \<open>dt_cols\<close> lists the added columns with
  their DDL type, \<open>r_vals\<close> holds one value per added column, and \<open>dt_seq\<close> is the
  AUTOINCREMENT high-water mark. Values are stored as given (no type affinity).
\<close>

record data_row =
  r_id :: int
  r_created_at :: string
  r_updated_at :: string
  r_vals :: "(string \<times> pyval) list"

record data_table =
  dt_cols :: "(string \<times> ddl) list"
  dt_rows :: "data_row list"
  dt_seq :: int

text \<open>
  The database behind one \<^verbatim>\<open>MetaRepository\<close>. \<open>tick\<close> counts the clock reads made so
  far: \<^verbatim>\<open>now_iso()\<close> returns the reading \<open>clock (tick s)\<close> of a clock the caller supplies.
\<close>

record repo =
  meta_projects :: "project_row list"
  meta_tables :: "table_row list"
  meta_fields :: "field_row list"
  data_tables :: "(string \<times> data_table) list"
  seq_fields :: int
  tick :: nat

type_synonym 'a result = "(error + 'a) \<times> repo"

definition now_iso :: "(nat \<Rightarrow> string) \<Rightarrow> repo \<Rightarrow> string \<times> repo" where
  "now_iso clock s = (clock (tick s), s\<lparr>tick := Suc (tick s)\<rparr>)"

definition data_table_name :: "int \<Rightarrow> string" where
  "data_table_name table_id = ''data_'' @ str_int table_id"

definition col_name :: "int \<Rightarrow> string" where
  "col_name fid = ''f_'' @ str_int fid"

text \<open>\<^verbatim>\<open>_ensure_data_table\<close>: CREATE TABLE IF NOT EXISTS with the three system columns.\<close>

definition ensure_data_table :: "repo \<Rightarrow> int \<Rightarrow> repo" where
  "ensure_data_table s table_id =
     (let tname = data_table_name table_id in
      case map_of (data_tables s) tname of
        Some tbl \<Rightarrow> s
      | None \<Rightarrow> s\<lparr>data_tables := data_tables s @ [(tname, \<lparr>dt_cols = [], dt_rows = [], dt_seq = 0\<rparr>)]\<rparr>)"

text \<open>\<^verbatim>\<open>_table_columns\<close>: PRAGMA table_info; no rows for a table that does not exist.\<close>

definition table_columns :: "repo \<Rightarrow> string \<Rightarrow> string list" where
  "table_columns s table_name =
     (case map_of (data_tables s) table_name of
        None \<Rightarrow> []
      | Some tbl \<Rightarrow> [''id'', ''created_at'', ''updated_at''] @ map fst (dt_cols tbl))"

section \<open>Record operations of the repository\<close>

definition get_table :: "repo \<Rightarrow> string \<Rightarrow> data_table" where
  "get_table s tname =
     (case map_of (data_tables s) tname of
        Some tbl \<Rightarrow> tbl
      | None \<Rightarrow> \<lparr>dt_cols = [], dt_rows = [], dt_seq = 0\<rparr>)"

definition put_table :: "repo \<Rightarrow> string \<Rightarrow> data_table \<Rightarrow> repo" where
  "put_table s tname tbl = s\<lparr>data_tables := AList.update tname tbl (data_tables s)\<rparr>"

text \<open>
  The row an INSERT builds: the value given for a column, the column's default where none
  is given. \<open>null_default\<close> is the REPLACE resolution of a NOT NULL conflict (the default
  replaces a NULL).
\<close>

definition mk_row ::
  "int \<Rightarrow> string \<Rightarrow> string \<Rightarrow> (string \<times> ddl) list \<Rightarrow> (string \<times> pyval) list \<Rightarrow> data_row" where
  "mk_row rid created updated cols vals =
     \<lparr>r_id = rid, r_created_at = created, r_updated_at = updated,
      r_vals = map (\<lambda>(c, ddl). (c, case map_of vals c of
                                        None \<Rightarrow> ddl_default ddl
                                      | Some v \<Rightarrow> if v = PNone then ddl_default ddl else v)) cols\<rparr>"

definition named_cols :: "(int \<times> pyval) list \<Rightarrow> (string \<times> pyval) list" where
  "named_cols values_by_field_id = map (\<lambda>(fid, v). (col_name fid, v)) values_by_field_id"

definition unknown_col :: "data_table \<Rightarrow> (string \<times> pyval) list \<Rightarrow> bool" where
  "unknown_col tbl vals = list_ex (\<lambda>(c, v). c \<notin> set (map fst (dt_cols tbl))) vals"

definition null_value :: "(string \<times> pyval) list \<Rightarrow> bool" where
  "null_value vals = list_ex (\<lambda>(c, v). v = PNone) vals"

text \<open>
  \<^verbatim>\<open>add_record\<close>: plain INSERT; the id is one more than the largest id the table has
  ever held (AUTOINCREMENT). The clock is read twice.
\<close>

definition add_record :: "(nat \<Rightarrow> string) \<Rightarrow> repo \<Rightarrow> int \<Rightarrow> (int \<times> pyval) list \<Rightarrow> int result" where
  "add_record clock s table_id values_by_field_id =
     (let s1 = ensure_data_table s table_id;
          tname = data_table_name table_id;
          (created, s2) = now_iso clock s1;
          (updated, s3) = now_iso clock s2;
          vals = named_cols values_by_field_id;
          tbl = get_table s3 tname
      in if unknown_col tbl vals then (Inl OperationalError, s3)
         else if null_value vals then (Inl IntegrityError, s3)
         else let rid = foldr max (map r_id (dt_rows tbl)) (dt_seq tbl) + 1;
                  row = mk_row rid created updated (dt_cols tbl) vals
              in (Inr rid, put_table s3 tname (tbl\<lparr>dt_rows := dt_rows tbl @ [row], dt_seq := rid\<rparr>)))"

text \<open>
  \<^verbatim>\<open>add_record_with_id\<close>: INSERT OR REPLACE with a forced id; \<^verbatim>\<open>created_at or now_iso()\<close>
  reads the clock only when the argument is \<^verbatim>\<open>None\<close> or empty.
\<close>

definition or_now :: "(nat \<Rightarrow> string) \<Rightarrow> string option \<Rightarrow> repo \<Rightarrow> string \<times> repo" where
  "or_now clock given s =
     (case given of
        None \<Rightarrow> now_iso clock s
      | Some t \<Rightarrow> if t = [] then now_iso clock s else (t, s))"

definition add_record_with_id ::
  "(nat \<Rightarrow> string) \<Rightarrow> repo \<Rightarrow> int \<Rightarrow> int \<Rightarrow> (int \<times> pyval) list \<Rightarrow> string option \<Rightarrow> string option
     \<Rightarrow> int result" where
  "add_record_with_id clock s table_id record_id values_by_field_id created_at updated_at =
     (let s1 = ensure_data_table s table_id;
          tname = data_table_name table_id;
          (created, s2) = or_now clock created_at s1;
          (updated, s3) = or_now clock updated_at s2;
          vals = named_cols values_by_field_id;
          tbl = get_table s3 tname
      in if unknown_col tbl vals then (Inl OperationalError, s3)
         else let row = mk_row record_id created updated (dt_cols tbl) vals;
                  kept = filter (\<lambda>r. r_id r \<noteq> record_id) (dt_rows tbl)
              in (Inr record_id,
                  put_table s3 tname (tbl\<lparr>dt_rows := kept @ [row], dt_seq := max (dt_seq tbl) record_id\<rparr>)))"

text \<open>\<^verbatim>\<open>update_record\<close>: nothing at all for an empty value map; else UPDATE ... WHERE id=?.\<close>

definition update_row :: "string \<Rightarrow> (string \<times> pyval) list \<Rightarrow> data_row \<Rightarrow> data_row" where
  "update_row updated vals r =
     r\<lparr>r_updated_at := updated,
       r_vals := map (\<lambda>(c, old). (c, case map_of vals c of None \<Rightarrow> old | Some v \<Rightarrow> v)) (r_vals r)\<rparr>"

definition update_record :: "(nat \<Rightarrow> string) \<Rightarrow> repo \<Rightarrow> int \<Rightarrow> int \<Rightarrow> (int \<times> pyval) list \<Rightarrow> unit result" where
  "update_record clock s table_id record_id values_by_field_id =
     (if values_by_field_id = [] then (Inr (), s)
      else let s1 = ensure_data_table s table_id;
               tname = data_table_name table_id;
               (updated, s2) = now_iso clock s1;
               vals = named_cols values_by_field_id;
               tbl = get_table s2 tname
           in if unknown_col tbl vals then (Inl OperationalError, s2)
              else if null_value vals \<and> list_ex (\<lambda>r. r_id r = record_id) (dt_rows tbl)
                   then (Inl IntegrityError, s2)
              else (Inr (),
                    put_table s2 tname
                      (tbl\<lparr>dt_rows := map (\<lambda>r. if r_id r = record_id then update_row updated vals r else r)
                                          (dt_rows tbl)\<rparr>)))"

definition delete_record :: "repo \<Rightarrow> int \<Rightarrow> int \<Rightarrow> unit result" where
  "delete_record s table_id record_id =
     (let s1 = ensure_data_table s table_id;
          tname = data_table_name table_id;
          tbl = get_table s1 tname
      in (Inr (), put_table s1 tname (tbl\<lparr>dt_rows := filter (\<lambda>r. r_id r \<noteq> record_id) (dt_rows tbl)\<rparr>)))"

definition get_record_by_id :: "repo \<Rightarrow> int \<Rightarrow> int \<Rightarrow> data_row option \<times> repo" where
  "get_record_by_id s table_id record_id =
     (let s1 = ensure_data_table s table_id;
          tname = data_table_name table_id
      in (find (\<lambda>r. r_id r = record_id) (dt_rows (get_table s1 tname)), s1))"

section \<open>The table view and its command history\<close>

text \<open>
  The undo and redo callables of the source are closures whose body is one repository
  call on captured variables; a closure is kept as that call with its captured
  arguments.
\<close>

datatype closure =
    CallDeleteRecord int int
  | CallAddRecordWithId int int "(int \<times> pyval) list" "string option" "string option"
  | CallUpdateRecord int int "(int \<times> pyval) list"

fun run_closure :: "(nat \<Rightarrow> string) \<Rightarrow> repo \<Rightarrow> closure \<Rightarrow> error option \<times> repo" where
  "run_closure clock s (CallDeleteRecord table_id rid) =
     (case delete_record s table_id rid of (Inl e, s') \<Rightarrow> (Some e, s') | (Inr u, s') \<Rightarrow> (None, s'))"
| "run_closure clock s (CallAddRecordWithId table_id rid data created_at updated_at) =
     (case add_record_with_id clock s table_id rid data created_at updated_at of
        (Inl e, s') \<Rightarrow> (Some e, s') | (Inr u, s') \<Rightarrow> (None, s'))"
| "run_closure clock s (CallUpdateRecord table_id rid data) =
     (case update_record clock s table_id rid data of (Inl e, s') \<Rightarrow> (Some e, s') | (Inr u, s') \<Rightarrow> (None, s'))"

record cmd =
  c_label :: string
  c_undo :: closure
  c_redo :: closure

text \<open>
  The state of one \<^verbatim>\<open>TableView\<close>: the repository it works on, its table, the active
  fields read at the last \<^verbatim>\<open>reload\<close>, and the history \<^verbatim>\<open>_undo\<close>, \<^verbatim>\<open>_undo_idx\<close>,
  \<^verbatim>\<open>_in_undo_redo\<close>.
\<close>

record view =
  v_repo :: repo
  v_table_id :: int
  v_fields :: "field_row list"
  undo_log :: "cmd list"
  undo_idx :: int
  in_undo_redo :: bool

text \<open>The slice \<^verbatim>\<open>xs[:i]\<close>; a negative \<open>i\<close> counts from the end.\<close>

definition py_take :: "int \<Rightarrow> 'a list \<Rightarrow> 'a list" where
  "py_take i xs = (if 0 \<le> i then take (nat i) xs else take (length xs - nat (- i)) xs)"

definition push_cmd :: "view \<Rightarrow> string \<Rightarrow> closure \<Rightarrow> closure \<Rightarrow> view" where
  "push_cmd v lbl undo_fn redo_fn =
     (if in_undo_redo v then v
      else v\<lparr>undo_log := py_take (undo_idx v) (undo_log v) @ [\<lparr>c_label = lbl, c_undo = undo_fn, c_redo = redo_fn\<rparr>],
             undo_idx := undo_idx v + 1\<rparr>)"

text \<open>
  \<^verbatim>\<open>undo\<close> and \<^verbatim>\<open>redo\<close>. The \<^verbatim>\<open>finally\<close> clause clears the flag on every exit; an
  exception of the command leaves the cursor where the \<^verbatim>\<open>try\<close> body had put it. The
  final \<^verbatim>\<open>refresh\<close> only reads.
\<close>

definition py_index :: "'a list \<Rightarrow> int \<Rightarrow> 'a option" where
  "py_index xs i =
     (let j = (if i < 0 then int (length xs) + i else i)
      in if 0 \<le> j \<and> j < int (length xs) then Some (xs ! nat j) else None)"

definition undo :: "(nat \<Rightarrow> string) \<Rightarrow> view \<Rightarrow> error option \<times> view" where
  "undo clock v =
     (if undo_idx v \<le> 0 then (None, v)
      else let v1 = v\<lparr>in_undo_redo := True\<rparr>;
               v2 = v1\<lparr>undo_idx := undo_idx v1 - 1\<rparr>
           in case py_index (undo_log v2) (undo_idx v2) of
                None \<Rightarrow> (Some IndexError, v2\<lparr>in_undo_redo := False\<rparr>)
              | Some c \<Rightarrow>
                  (case run_closure clock (v_repo v2) (c_undo c) of
                     (e, s') \<Rightarrow> (e, v2\<lparr>v_repo := s', in_undo_redo := False\<rparr>)))"

definition redo :: "(nat \<Rightarrow> string) \<Rightarrow> view \<Rightarrow> error option \<times> view" where
  "redo clock v =
     (if undo_idx v \<ge> int (length (undo_log v)) then (None, v)
      else let v1 = v\<lparr>in_undo_redo := True\<rparr>
           in case py_index (undo_log v1) (undo_idx v1) of
                None \<Rightarrow> (Some IndexError, v1\<lparr>in_undo_redo := False\<rparr>)
              | Some c \<Rightarrow>
                  (case run_closure clock (v_repo v1) (c_redo c) of
                     (Some e, s') \<Rightarrow> (Some e, v1\<lparr>v_repo := s', in_undo_redo := False\<rparr>)
                   | (None, s') \<Rightarrow>
                       (None, v1\<lparr>v_repo := s', undo_idx := undo_idx v1 + 1, in_undo_redo := False\<rparr>)))"

text \<open>A view as \<^verbatim>\<open>TableView.__init__\<close> leaves it: no entries, cursor 0, flag clear.\<close>

definition new_view :: "repo \<Rightarrow> int \<Rightarrow> field_row list \<Rightarrow> view" where
  "new_view s table_id flds =
     \<lparr>v_repo = s, v_table_id = table_id, v_fields = flds, undo_log = [], undo_idx = 0, in_undo_redo = False\<rparr>"

text \<open>Calls on the history, and a run of them.\<close>

datatype hist_call = Record string closure closure | Undo | Redo

fun hist_step :: "(nat \<Rightarrow> string) \<Rightarrow> view \<Rightarrow> hist_call \<Rightarrow> view" where
  "hist_step clock v (Record lbl u r) = push_cmd v lbl u r"
| "hist_step clock v Undo = snd (undo clock v)"
| "hist_step clock v Redo = snd (redo clock v)"

definition hist_run :: "(nat \<Rightarrow> string) \<Rightarrow> view \<Rightarrow> hist_call list \<Rightarrow> view" where
  "hist_run clock v calls = foldl (hist_step clock) v calls"

definition hist_inv :: "view \<Rightarrow> bool" where
  "hist_inv v \<longleftrightarrow> 0 \<le> undo_idx v \<and> undo_idx v \<le> int (length (undo_log v)) \<and> \<not> in_undo_redo v"

text \<open>A database as \<^verbatim>\<open>_init_db\<close> leaves a fresh file, and a clock that advances.\<close>

definition empty_repo :: repo where
  "empty_repo = \<lparr>meta_projects = [], meta_tables = [], meta_fields = [], data_tables = [],
                  seq_fields = 0, tick = 0\<rparr>"

definition sample_clock :: "nat \<Rightarrow> string" where
  "sample_clock n = (if n < 2 then ''2025-12-30T10:00:00'' else ''2025-12-30T10:00:07'')"

section \<open>Schema operations of the repository\<close>

text \<open>
  \<^verbatim>\<open>_ensure_column\<close>: nothing when the column is listed; else ALTER TABLE ADD COLUMN, which
  fails on a table that does not exist and on a name that differs from an existing one
  only by case, and gives every row the column's default.
\<close>

definition ensure_column :: "repo \<Rightarrow> string \<Rightarrow> string \<Rightarrow> ddl \<Rightarrow> unit result" where
  "ensure_column s table_name col ddl_type =
     (let cols = table_columns s table_name in
      if col \<in> set cols then (Inr (), s)
      else case map_of (data_tables s) table_name of
             None \<Rightarrow> (Inl OperationalError, s)
           | Some tbl \<Rightarrow>
               if py_lower col \<in> set (map py_lower cols) then (Inl OperationalError, s)
               else (Inr (),
                     put_table s table_name
                       (tbl\<lparr>dt_cols := dt_cols tbl @ [(col, ddl_type)],
                            dt_rows := map (\<lambda>r. r\<lparr>r_vals := r_vals r @ [(col, ddl_default ddl_type)]\<rparr>)
                                           (dt_rows tbl)\<rparr>)))"

definition FIELD_TYPES :: "string list" where
  "FIELD_TYPES = [''text'', ''number'', ''date'', ''bool'', ''file'', ''select'', ''relation'', ''path'', ''image'']"

text \<open>\<open>COALESCE(position, id)\<close>, the sort key of \<^verbatim>\<open>list_fields\<close>.\<close>

definition coalesce_position :: "field_row \<Rightarrow> int" where
  "coalesce_position f = (case f_position f of None \<Rightarrow> f_id f | Some p \<Rightarrow> p)"

text \<open>
  \<^verbatim>\<open>list_fields\<close>: ORDER BY COALESCE(position, id) ASC, id ASC, as a stable sort on the
  first key of the rows sorted on the second.
\<close>

definition list_fields :: "repo \<Rightarrow> int \<Rightarrow> bool \<Rightarrow> field_row list" where
  "list_fields s table_id active_only =
     sort_key coalesce_position
       (sort_key f_id
          (filter (\<lambda>f. f_table_id f = table_id \<and> (active_only \<longrightarrow> f_active f = 1)) (meta_fields s)))"

definition next_field_position :: "repo \<Rightarrow> int \<Rightarrow> int" where
  "next_field_position s table_id =
     foldr max (map coalesce_position (filter (\<lambda>f. f_table_id f = table_id) (meta_fields s))) 0 + 1"

text \<open>\<^verbatim>\<open>int(x)\<close> for a value that passed \<^verbatim>\<open>isinstance(x, int)\<close>, and \<^verbatim>\<open>x or 0\<close>.\<close>

fun int_of_intlike :: "pyval \<Rightarrow> int" where
  "int_of_intlike (PInt i) = i"
| "int_of_intlike (PBool b) = (if b then 1 else 0)"
| "int_of_intlike v = 0"

definition or_zero :: "pyval option \<Rightarrow> pyval" where
  "or_zero v = (case v of None \<Rightarrow> PInt 0 | Some x \<Rightarrow> if truthy x then x else PInt 0)"

text \<open>The two option checks of \<^verbatim>\<open>add_field\<close>, each the negation of the raising condition.\<close>

definition select_options_ok :: "(string \<times> pyval) list \<Rightarrow> bool" where
  "select_options_ok options =
     (case map_of options ''options'' of
        None \<Rightarrow> True
      | Some (PList xs) \<Rightarrow> list_all isinstance_str xs
      | Some v \<Rightarrow> False)"

definition relation_target_ok :: "(string \<times> pyval) list \<Rightarrow> bool" where
  "relation_target_ok options =
     (case map_of options ''target_table_id'' of
        None \<Rightarrow> False
      | Some v \<Rightarrow> isinstance_int v \<and> \<not> int_of_intlike (or_zero (Some v)) \<le> 0)"

definition relation_display_ok :: "(string \<times> pyval) list \<Rightarrow> bool" where
  "relation_display_ok options =
     (case map_of options ''display_field_id'' of
        None \<Rightarrow> True
      | Some v \<Rightarrow> isinstance_int v)"

text \<open>
  \<^verbatim>\<open>add_field\<close>. The three validations come first; then the clock is read, the position
  computed and the row inserted (the foreign key on \<^verbatim>\<open>table_id\<close> is enforced:
  \<^verbatim>\<open>PRAGMA foreign_keys = ON\<close>), and the backing column is added.
\<close>

definition add_field ::
  "(nat \<Rightarrow> string) \<Rightarrow> repo \<Rightarrow> int \<Rightarrow> string \<Rightarrow> string \<Rightarrow> bool \<Rightarrow> (string \<times> pyval) list option
     \<Rightarrow> int result" where
  "add_field clock s table_id name ftype required options =
     (let name = py_strip name in
      if name = [] then (Inl (ValueError ''El nombre del campo es obligatorio.''), s)
      else if ftype \<notin> set FIELD_TYPES then (Inl (ValueError ''Tipo invalido.''), s)
      else let options = (case options of None \<Rightarrow> [] | Some d \<Rightarrow> d) in
      if ftype = ''select'' \<and> \<not> select_options_ok options
        then (Inl (ValueError ''En select, options debe ser una lista de strings.''), s)
      else if ftype = ''relation'' \<and> \<not> relation_target_ok options
        then (Inl (ValueError ''En relation debes indicar target_table_id (>0).''), s)
      else if ftype = ''relation'' \<and> \<not> relation_display_ok options
        then (Inl (ValueError ''display_field_id debe ser int (o 0).''), s)
      else let (ts, s1) = now_iso clock s;
               pos = next_field_position s1 table_id
           in if table_id \<notin> set (map t_id (meta_tables s1)) then (Inl IntegrityError, s1)
              else let field_id = foldr max (map f_id (meta_fields s1)) (seq_fields s1) + 1;
                       row = \<lparr>f_id = field_id, f_table_id = table_id, f_name = name, f_ftype = ftype,
                              f_required = (if required then 1 else 0), f_active = 1,
                              f_position = Some pos, f_options_json = PDict options,
                              f_created_at = ts, f_updated_at = ts\<rparr>;
                       s2 = s1\<lparr>meta_fields := meta_fields s1 @ [row], seq_fields := field_id\<rparr>;
                       s3 = ensure_data_table s2 table_id;
                       tname = data_table_name table_id;
                       col = col_name field_id
                   in case ddl_for_field ftype of
                        Inl e \<Rightarrow> (Inl e, s3)
                      | Inr d \<Rightarrow>
                          (case ensure_column s3 tname col d of
                             (Inl e, s4) \<Rightarrow> (Inl e, s4)
                           | (Inr u, s4) \<Rightarrow> (Inr field_id, s4)))"

text \<open>
  \<^verbatim>\<open>reorder_fields\<close>: the non-positive ids are dropped, then one UPDATE per remaining id,
  numbered from 1, each restricted to the given table and each reading the clock.
\<close>

definition update_position :: "(nat \<Rightarrow> string) \<Rightarrow> repo \<Rightarrow> int \<Rightarrow> int \<Rightarrow> int \<Rightarrow> repo" where
  "update_position clock s table_id fid i =
     (let (ts, s1) = now_iso clock s
      in s1\<lparr>meta_fields :=
               map (\<lambda>f. if f_id f = fid \<and> f_table_id f = table_id
                         then f\<lparr>f_position := Some i, f_updated_at := ts\<rparr> else f)
                   (meta_fields s1)\<rparr>)"

fun reorder_loop :: "(nat \<Rightarrow> string) \<Rightarrow> int \<Rightarrow> int \<Rightarrow> int list \<Rightarrow> repo \<Rightarrow> repo" where
  "reorder_loop clock table_id i [] s = s"
| "reorder_loop clock table_id i (fid # rest) s =
     reorder_loop clock table_id (i + 1) rest (update_position clock s table_id fid i)"

definition reorder_fields :: "(nat \<Rightarrow> string) \<Rightarrow> repo \<Rightarrow> int \<Rightarrow> int list \<Rightarrow> repo" where
  "reorder_fields clock s table_id ordered_field_ids =
     (let ids = filter (\<lambda>x. x > 0) ordered_field_ids
      in if ids = [] then s else reorder_loop clock table_id 1 ids s)"

text \<open>The index of the last occurrence of an element (0 when it does not occur).\<close>

fun last_index :: "'a list \<Rightarrow> 'a \<Rightarrow> nat" where
  "last_index [] y = 0"
| "last_index (x # xs) y = (if y \<in> set xs then Suc (last_index xs y) else 0)"

text \<open>
  What \<^verbatim>\<open>reorder_fields\<close> makes of one row: a row of the table whose id is among the
  ids kept gets the number of the last UPDATE that names it, counted from \<open>i\<close>.
\<close>

definition reordered :: "(nat \<Rightarrow> string) \<Rightarrow> nat \<Rightarrow> int \<Rightarrow> int \<Rightarrow> int list \<Rightarrow> field_row \<Rightarrow> field_row" where
  "reordered clock t0 table_id i ids f =
     (if f_table_id f = table_id \<and> f_id f \<in> set ids
      then f\<lparr>f_position := Some (i + int (last_index ids (f_id f))),
             f_updated_at := clock (t0 + last_index ids (f_id f))\<rparr>
      else f)"

text \<open>
  A small database: tables Tasks (1) and People (2), fields Title and Done on Tasks and
  Name on People, one task.
\<close>

definition sample_repo :: repo where
  "sample_repo =
     \<lparr>meta_projects = [],
      meta_tables =
        [\<lparr>t_id = 1, t_name = ''Tasks'', t_project_id = None,
          t_created_at = ''2025-12-30T09:00:00'', t_updated_at = ''2025-12-30T09:00:00''\<rparr>,
         \<lparr>t_id = 2, t_name = ''People'', t_project_id = None,
          t_created_at = ''2025-12-30T09:00:00'', t_updated_at = ''2025-12-30T09:00:00''\<rparr>],
      meta_fields =
        [\<lparr>f_id = 1, f_table_id = 1, f_name = ''Title'', f_ftype = ''text'', f_required = 0, f_active = 1,
          f_position = Some 1, f_options_json = PDict [],
          f_created_at = ''2025-12-30T09:00:00'', f_updated_at = ''2025-12-30T09:00:00''\<rparr>,
         \<lparr>f_id = 2, f_table_id = 1, f_name = ''Done'', f_ftype = ''bool'', f_required = 0, f_active = 1,
          f_position = Some 2, f_options_json = PDict [],
          f_created_at = ''2025-12-30T09:00:00'', f_updated_at = ''2025-12-30T09:00:00''\<rparr>,
         \<lparr>f_id = 3, f_table_id = 2, f_name = ''Name'', f_ftype = ''text'', f_required = 0, f_active = 1,
          f_position = Some 1, f_options_json = PDict [],
          f_created_at = ''2025-12-30T09:00:00'', f_updated_at = ''2025-12-30T09:00:00''\<rparr>],
      data_tables =
        [(''data_1'',
          \<lparr>dt_cols = [(''f_1'', DDL_TEXT), (''f_2'', DDL_INTEGER)],
           dt_rows = [\<lparr>r_id = 1, r_created_at = ''2025-12-30T09:30:00'', r_updated_at = ''2025-12-30T09:45:00'',
                       r_vals = [(''f_1'', PStr ''Write spec''), (''f_2'', PInt 0)]\<rparr>],
           dt_seq = 1\<rparr>),
         (''data_2'', \<lparr>dt_cols = [(''f_3'', DDL_TEXT)], dt_rows = [], dt_seq = 0\<rparr>)],
      seq_fields = 3,
      tick = 0\<rparr>"

section \<open>The add-field dialog\<close>

text \<open>
  \<^verbatim>\<open>str.splitlines()\<close> and \<^verbatim>\<open>str.split(",")\<close> on ASCII. A line ends at
  \<^verbatim>\<open>\n\<close>, \<^verbatim>\<open>\r\<close>, \<^verbatim>\<open>\r\n\<close>, \<^verbatim>\<open>\v\<close>, \<^verbatim>\<open>\f\<close>, \<^verbatim>\<open>\x1c\<close>, \<^verbatim>\<open>\x1d\<close> or \<^verbatim>\<open>\x1e\<close>;
  a break at the very end opens no further line.
\<close>

definition is_linebreak :: "char \<Rightarrow> bool" where
  "is_linebreak c \<longleftrightarrow> (of_char c :: nat) \<in> {10, 11, 12, 13, 28, 29, 30}"

fun splitlines_acc :: "string \<Rightarrow> string \<Rightarrow> string list" where
  "splitlines_acc cur [] = (if cur = [] then [] else [rev cur])"
| "splitlines_acc cur [c] = (if is_linebreak c then [rev cur] else [rev (c # cur)])"
| "splitlines_acc cur (c # d # cs) =
     (if c = CHR 0x0D \<and> d = CHR 0x0A then rev cur # splitlines_acc [] cs
      else if is_linebreak c then rev cur # splitlines_acc [] (d # cs)
      else splitlines_acc (c # cur) (d # cs))"

definition splitlines :: "string \<Rightarrow> string list" where
  "splitlines s = splitlines_acc [] s"

fun split_acc :: "char \<Rightarrow> string \<Rightarrow> string \<Rightarrow> string list" where
  "split_acc sep cur [] = [rev cur]"
| "split_acc sep cur (c # cs) =
     (if c = sep then rev cur # split_acc sep [] cs else split_acc sep (c # cur) cs)"

definition py_split :: "char \<Rightarrow> string \<Rightarrow> string list" where
  "py_split sep s = split_acc sep [] s"

text \<open>
  \<^verbatim>\<open>AddFieldDialog.get_data\<close>, the select branch: the non-empty trimmed pieces of the
  text, split at line ends and commas, then the loop that keeps the first occurrence of
  each piece (\<open>seen\<close> is the set, \<open>opts\<close> the list built).
\<close>

definition select_parts :: "string \<Rightarrow> string list" where
  "select_parts text =
     concat (map (\<lambda>line. filter (\<lambda>p. p \<noteq> []) (map py_strip (py_split CHR '','' line)))
                 (splitlines (py_strip text)))"

fun dedupe_loop :: "string set \<Rightarrow> string list \<Rightarrow> string list \<Rightarrow> string list" where
  "dedupe_loop seen opts [] = opts"
| "dedupe_loop seen opts (x # xs) =
     (if x \<notin> seen then dedupe_loop (insert x seen) (opts @ [x]) xs else dedupe_loop seen opts xs)"

text \<open>
  The widgets \<^verbatim>\<open>get_data\<close> reads: the name, the type chosen, the required box, the
  select text, and the data of the two relation combo boxes (\<open>None\<close> when a box is
  empty).
\<close>

record add_field_dialog =
  d_name :: string
  d_ftype :: string
  d_required :: bool
  d_select_text :: string
  d_rel_table :: "int option"
  d_rel_display :: "int option"

record field_data =
  fd_name :: string
  fd_ftype :: string
  fd_required :: bool
  fd_options :: "(string \<times> pyval) list"

definition get_data :: "add_field_dialog \<Rightarrow> field_data" where
  "get_data dlg =
     (let ftype = d_ftype dlg;
          options =
            (if ftype = ''select''
             then [(''options'', PList (map PStr (dedupe_loop {} [] (select_parts (d_select_text dlg)))))]
             else if ftype = ''relation''
             then [(''target_table_id'', PInt (case d_rel_table dlg of None \<Rightarrow> 0 | Some t \<Rightarrow> t)),
                   (''display_field_id'', PInt (case d_rel_display dlg of None \<Rightarrow> 0 | Some f \<Rightarrow> f))]
             else [])
      in \<lparr>fd_name = py_strip (d_name dlg), fd_ftype = ftype, fd_required = d_required dlg,
          fd_options = options\<rparr>)"

text \<open>
  \<^verbatim>\<open>FieldsPanel.add_field\<close> once the dialog is accepted: the dialog's data go to the
  repository; an exception is shown and dropped.
\<close>

definition panel_add_field :: "(nat \<Rightarrow> string) \<Rightarrow> repo \<Rightarrow> int \<Rightarrow> add_field_dialog \<Rightarrow> int result" where
  "panel_add_field clock s table_id dlg =
     (let d = get_data dlg
      in add_field clock s table_id (fd_name d) (fd_ftype d) (fd_required d) (Some (fd_options d)))"

text \<open>The options stored for a field, read back by its id.\<close>

definition stored_options :: "repo \<Rightarrow> int \<Rightarrow> pyval option" where
  "stored_options s fid = map_option f_options_json (find (\<lambda>f. f_id f = fid) (meta_fields s))"

section \<open>Building the query of \<^verbatim>\<open>list_records\<close>\<close>

text \<open>
  \<^verbatim>\<open>int(x)\<close>: integers and booleans as they are, a finite float truncated toward zero,
  a string when it is an optionally signed run of decimal digits (single underscores
  between digits allowed) with blanks around it; \<open>None\<close> when Python raises.
\<close>

definition is_digit :: "char \<Rightarrow> bool" where
  "is_digit c \<longleftrightarrow> 48 \<le> (of_char c :: nat) \<and> (of_char c :: nat) \<le> 57"

fun valid_digits :: "string \<Rightarrow> bool" where
  "valid_digits [] = False"
| "valid_digits [c] = is_digit c"
| "valid_digits (c # d # cs) =
     (is_digit c \<and> (if d = CHR ''_'' then valid_digits cs else valid_digits (d # cs)))"

definition digits_value :: "string \<Rightarrow> nat" where
  "digits_value s = foldl (\<lambda>a c. 10 * a + (of_char c - 48)) 0 (filter is_digit s)"

definition int_of_str :: "string \<Rightarrow> int option" where
  "int_of_str s =
     (let t = py_strip s;
          neg = (t \<noteq> [] \<and> hd t = CHR ''-'');
          body = (if t \<noteq> [] \<and> (hd t = CHR ''-'' \<or> hd t = CHR ''+'') then tl t else t)
      in if valid_digits body
         then Some (if neg then - int (digits_value body) else int (digits_value body))
         else None)"

fun py_int :: "pyval \<Rightarrow> int option" where
  "py_int (PInt i) = Some i"
| "py_int (PBool b) = Some (if b then 1 else 0)"
| "py_int (PStr s) = int_of_str s"
| "py_int (PFloat m e) =
     Some (if 0 \<le> e then m * 2 ^ nat e
           else if 0 \<le> m then m div 2 ^ nat (- e) else - ((- m) div 2 ^ nat (- e)))"
| "py_int v = None"

text \<open>\<^verbatim>\<open>x == n\<close> for an integer \<open>n\<close>, as the membership test \<^verbatim>\<open>x in (0, 1)\<close> compares.\<close>

fun py_eq_int :: "pyval \<Rightarrow> int \<Rightarrow> bool" where
  "py_eq_int (PInt i) n = (i = n)"
| "py_eq_int (PBool b) n = ((if b then 1 else 0) = n)"
| "py_eq_int (PFloat m e) n = (if 0 \<le> e then m * 2 ^ nat e = n else m = n * 2 ^ nat (- e))"
| "py_eq_int v n = False"

text \<open>
  The conversions of Python that the model takes from outside: \<^verbatim>\<open>float(x)\<close> (\<open>None\<close>
  when it raises) and the text \<^verbatim>\<open>str(x)\<close> gives for floats, lists and dictionaries.
\<close>

record py_env =
  float_of :: "pyval \<Rightarrow> pyval option"
  repr_of :: "pyval \<Rightarrow> string"

fun py_str :: "py_env \<Rightarrow> pyval \<Rightarrow> string" where
  "py_str env (PStr s) = s"
| "py_str env (PInt i) = str_int i"
| "py_str env (PBool b) = (if b then ''True'' else ''False'')"
| "py_str env PNone = ''None''"
| "py_str env v = repr_of env v"

fun py_join :: "string \<Rightarrow> string list \<Rightarrow> string" where
  "py_join sep [] = []"
| "py_join sep [x] = x"
| "py_join sep (x # y # ys) = x @ sep @ py_join sep (y # ys)"

definition py_replace_char :: "char \<Rightarrow> char \<Rightarrow> string \<Rightarrow> string" where
  "py_replace_char a b s = map (\<lambda>c. if c = a then b else c) s"

text \<open>
  The free-text search: one iteration of the loop over the active fields gives the
  clauses and parameters it appends to \<open>where_or\<close> and \<open>params\<close>.
\<close>

definition search_field :: "py_env \<Rightarrow> string \<Rightarrow> field_row \<Rightarrow> string list \<times> pyval list" where
  "search_field env q f =
     (let col = col_name (f_id f); like = ''%'' @ q @ ''%'' in
      if f_ftype f \<in> set [''text'', ''date'', ''file'', ''select'', ''path'']
        then ([col @ '' LIKE ?''], [PStr like])
      else if f_ftype f = ''number''
        then (case float_of env (PStr (py_replace_char CHR '','' CHR ''.'' q)) of
                Some num \<Rightarrow> ([col @ '' = ?''], [num])
              | None \<Rightarrow> ([], []))
      else if f_ftype f = ''bool''
        then (if py_lower q \<in> set [''si'', [CHR ''s'', CHR 0xC3, CHR 0xAD], ''true'', ''1'', ''yes'']
                then ([col @ '' = 1''], [])
              else if py_lower q \<in> set [''no'', ''false'', ''0'']
                then ([col @ '' = 0''], [])
              else ([], []))
      else if f_ftype f = ''relation''
        then (case int_of_str q of
                Some rid \<Rightarrow> ([col @ '' = ?''], [PInt rid])
              | None \<Rightarrow> ([], []))
      else ([], []))"

definition search_where :: "py_env \<Rightarrow> string \<Rightarrow> field_row list \<Rightarrow> string list \<times> pyval list" where
  "search_where env q flds =
     (if q = [] then ([], [])
      else let where_or = ''CAST(id AS TEXT) LIKE ?'' # concat (map (\<lambda>f. fst (search_field env q f)) flds);
               params = PStr (''%'' @ q @ ''%'') # concat (map (\<lambda>f. snd (search_field env q f)) flds)
           in ([''('' @ py_join '' OR '' where_or @ '')''], params))"

text \<open>
  One iteration of the loop over \<^verbatim>\<open>filters.items()\<close>: the clauses and parameters it
  appends, or the exception a conversion raises. The three \<^verbatim>\<open>continue\<close> statements
  come first.
\<close>

text \<open>The exception a failed \<^verbatim>\<open>int(x)\<close> or \<^verbatim>\<open>float(x)\<close> raises.\<close>

fun conv_error :: "pyval \<Rightarrow> error" where
  "conv_error (PStr s) = ValueError ''invalid literal''"
| "conv_error v = TypeError"

definition dict_get :: "(string \<times> pyval) list \<Rightarrow> string \<Rightarrow> pyval" where
  "dict_get d k = (case map_of d k of None \<Rightarrow> PNone | Some v \<Rightarrow> v)"

definition filter_entry ::
  "py_env \<Rightarrow> field_row list \<Rightarrow> pyval \<Rightarrow> pyval \<Rightarrow> error + (string list \<times> pyval list)" where
  "filter_entry env flds fid_str fval =
     (case py_int fid_str of
        None \<Rightarrow> Inr ([], [])
      | Some fid \<Rightarrow>
         (case find (\<lambda>f. f_id f = fid) flds of
            None \<Rightarrow> Inr ([], [])
          | Some f \<Rightarrow>
             (case fval of
                PDict d \<Rightarrow>
                  (let col = col_name fid; ftype = f_ftype f in
                   if ftype \<in> set [''text'', ''file'', ''select'', ''path''] then
                     (if map_of d ''equals'' \<noteq> None \<and> py_strip (py_str env (dict_get d ''equals'')) \<noteq> []
                        then Inr ([col @ '' = ?''], [PStr (py_str env (dict_get d ''equals''))])
                      else if map_of d ''contains'' \<noteq> None
                              \<and> py_strip (py_str env (dict_get d ''contains'')) \<noteq> []
                        then Inr ([col @ '' LIKE ?''],
                                  [PStr (''%'' @ py_str env (dict_get d ''contains'') @ ''%'')])
                      else Inr ([], []))
                   else if ftype = ''number'' then
                     (case (if dict_get d ''min'' \<noteq> PNone
                            then map_option (\<lambda>x. ([col @ '' >= ?''], [x])) (float_of env (dict_get d ''min''))
                            else Some ([], [])) of
                        None \<Rightarrow> Inl (conv_error (dict_get d ''min''))
                      | Some (w1, p1) \<Rightarrow>
                         (case (if dict_get d ''max'' \<noteq> PNone
                                then map_option (\<lambda>x. ([col @ '' <= ?''], [x])) (float_of env (dict_get d ''max''))
                                else Some ([], [])) of
                            None \<Rightarrow> Inl (conv_error (dict_get d ''max''))
                          | Some (w2, p2) \<Rightarrow> Inr (w1 @ w2, p1 @ p2)))
                   else if ftype = ''date'' then
                     (let lo = (case map_of d ''from'' of None \<Rightarrow> PStr [] | Some v \<Rightarrow> v);
                          hi = (case map_of d ''to'' of None \<Rightarrow> PStr [] | Some v \<Rightarrow> v);
                          (w1, p1) = (if py_strip (py_str env lo) \<noteq> []
                                      then ([col @ '' >= ?''], [PStr (py_str env lo)]) else ([], []));
                          (w2, p2) = (if py_strip (py_str env hi) \<noteq> []
                                      then ([col @ '' <= ?''], [PStr (py_str env hi)]) else ([], []))
                      in Inr (w1 @ w2, p1 @ p2))
                   else if ftype = ''bool'' then
                     (if map_of d ''is'' \<noteq> None
                         \<and> (py_eq_int (dict_get d ''is'') 0 \<or> py_eq_int (dict_get d ''is'') 1)
                        then (case py_int (dict_get d ''is'') of
                                None \<Rightarrow> Inl (conv_error (dict_get d ''is''))
                              | Some i \<Rightarrow> Inr ([col @ '' = ?''], [PInt i]))
                      else Inr ([], []))
                   else if ftype = ''relation'' then
                     (if map_of d ''is'' \<noteq> None
                        then (case py_int (if truthy (dict_get d ''is'') then dict_get d ''is'' else PInt 0) of
                                None \<Rightarrow> Inl (conv_error (dict_get d ''is''))
                              | Some i \<Rightarrow>
                                  if i > 0 then Inr ([col @ '' = ?''], [PInt i]) else Inr ([], []))
                      else Inr ([], []))
                   else Inr ([], []))
              | v \<Rightarrow> Inr ([], []))))"

fun filters_loop ::
  "py_env \<Rightarrow> field_row list \<Rightarrow> (pyval \<times> pyval) list \<Rightarrow> string list \<Rightarrow> pyval list
     \<Rightarrow> error + (string list \<times> pyval list)" where
  "filters_loop env flds [] wh params = Inr (wh, params)"
| "filters_loop env flds ((fid_str, fval) # rest) wh params =
     (case filter_entry env flds fid_str fval of
        Inl e \<Rightarrow> Inl e
      | Inr (w, p) \<Rightarrow> filters_loop env flds rest (wh @ w) (params @ p))"

text \<open>
  \<^verbatim>\<open>list_records\<close> up to the call of \<^verbatim>\<open>cur.execute\<close>: the statement text and its
  parameters. The rows are the storage engine's answer to that statement.
\<close>

record statement =
  st_sql :: string
  st_params :: "pyval list"

definition list_records ::
  "py_env \<Rightarrow> repo \<Rightarrow> int \<Rightarrow> string \<Rightarrow> int \<Rightarrow> (pyval \<times> pyval) list option \<Rightarrow> int option \<Rightarrow> string
     \<Rightarrow> statement result" where
  "list_records env s table_id query limit filters sort_field_id sort_dir =
     (let s1 = ensure_data_table s table_id;
          tname = data_table_name table_id;
          flds = list_fields s1 table_id True;
          q = py_strip query;
          (wh0, params0) = search_where env q flds;
          filters = (case filters of None \<Rightarrow> [] | Some d \<Rightarrow> d)
      in case filters_loop env flds filters wh0 params0 of
           Inl e \<Rightarrow> (Inl e, s1)
         | Inr (wh, params) \<Rightarrow>
             (let order_col =
                    (case sort_field_id of
                       None \<Rightarrow> ''id''
                     | Some sfid \<Rightarrow> if sfid \<in> set (map f_id flds) then col_name sfid else ''id'');
                  sort_dir = py_upper (if sort_dir = [] then ''DESC'' else sort_dir);
                  sort_dir = (if sort_dir \<notin> set [''ASC'', ''DESC''] then ''DESC'' else sort_dir);
                  sql = ''SELECT * FROM '' @ tname;
                  sql = (if wh \<noteq> [] then sql @ '' WHERE '' @ py_join '' AND '' wh else sql);
                  sql = sql @ '' ORDER BY '' @ order_col @ '' '' @ sort_dir @ '', id DESC LIMIT ?;''
              in (Inr \<lparr>st_sql = sql, st_params = params @ [PInt limit]\<rparr>, s1)))"

text \<open>Python's conversions on the values the examples use.\<close>

definition sample_env :: py_env where
  "sample_env = \<lparr>float_of = (\<lambda>v. case v of PInt i \<Rightarrow> Some (PFloat i 0) | PFloat m e \<Rightarrow> Some (PFloat m e)
                                     | PBool b \<Rightarrow> Some (PFloat (if b then 1 else 0) 0) | x \<Rightarrow> None),
                 repr_of = (\<lambda>v. ''?'')\<rparr>"

text \<open>The clauses one filter entry contributes (none when it raises).\<close>

definition entry_where :: "py_env \<Rightarrow> field_row list \<Rightarrow> pyval \<times> pyval \<Rightarrow> string list" where
  "entry_where env flds kv =
     (case filter_entry env flds (fst kv) (snd kv) of Inl e \<Rightarrow> [] | Inr (w, p) \<Rightarrow> w)"

section \<open>The command history keeps its cursor in range\<close>

lemma push_cmd_inv: "hist_inv v \<Longrightarrow> hist_inv (push_cmd v lbl u r)"
  by (auto simp: hist_inv_def push_cmd_def py_take_def)

lemma undo_inv: "hist_inv v \<Longrightarrow> hist_inv (snd (undo clock v))"
  by (auto simp: hist_inv_def undo_def Let_def split: option.splits prod.splits)

lemma redo_inv: "hist_inv v \<Longrightarrow> hist_inv (snd (redo clock v))"
  by (auto simp: hist_inv_def redo_def Let_def split: option.splits prod.splits)

lemma hist_step_inv: "hist_inv v \<Longrightarrow> hist_inv (hist_step clock v c)"
  by (cases c) (simp_all add: push_cmd_inv undo_inv redo_inv)

lemma hist_run_inv: "hist_inv v \<Longrightarrow> hist_inv (hist_run clock v calls)"
  unfolding hist_run_def
  by (induction calls arbitrary: v) (simp_all add: hist_step_inv)

lemma new_view_inv: "hist_inv (new_view s table_id flds)"
  by (simp add: hist_inv_def new_view_def)

text \<open>
  C10. Starting from the empty history (no entries, cursor 0), every sequence of
  \<open>Record\<close>, \<open>Undo\<close> and \<open>Redo\<close> calls keeps the cursor between 0 and the number of
  entries (and leaves the re-entrancy flag clear). \<open>undo\<close> changes nothing when the cursor
  is 0, \<open>redo\<close> changes nothing when the cursor equals the number of entries, and
  \<open>push_cmd\<close> changes nothing while the flag of a programmatic undo/redo is set.
\<close>

theorem command_history_invariant:
  "(0 \<le> undo_idx (hist_run clock (new_view s table_id flds) calls)
      \<and> undo_idx (hist_run clock (new_view s table_id flds) calls)
            \<le> int (length (undo_log (hist_run clock (new_view s table_id flds) calls)))
      \<and> \<not> in_undo_redo (hist_run clock (new_view s table_id flds) calls))
   \<and> (undo_idx v = 0 \<longrightarrow> undo clock v = (None, v))
   \<and> (undo_idx v = int (length (undo_log v)) \<longrightarrow> redo clock v = (None, v))
   \<and> (in_undo_redo v \<longrightarrow> push_cmd v lbl u r = v)"
proof -
  have "hist_inv (hist_run clock (new_view s table_id flds) calls)"
    by (rule hist_run_inv) (rule new_view_inv)
  then have bounds:
    "0 \<le> undo_idx (hist_run clock (new_view s table_id flds) calls)
      \<and> undo_idx (hist_run clock (new_view s table_id flds) calls)
            \<le> int (length (undo_log (hist_run clock (new_view s table_id flds) calls)))
      \<and> \<not> in_undo_redo (hist_run clock (new_view s table_id flds) calls)"
    by (simp add: hist_inv_def)
  have u: "undo_idx v = 0 \<longrightarrow> undo clock v = (None, v)"
    by (simp add: undo_def)
  have r: "undo_idx v = int (length (undo_log v)) \<longrightarrow> redo clock v = (None, v)"
    by (simp add: redo_def)
  have p: "in_undo_redo v \<longrightarrow> push_cmd v lbl u r = v"
    by (simp add: push_cmd_def)
  from bounds u r p show ?thesis by blast
qed

theorem command_history_invariant_witness:
  "undo_idx (new_view empty_repo 1 []) = 0
   \<and> undo sample_clock (new_view empty_repo 1 []) = (None, new_view empty_repo 1 [])
   \<and> undo_idx (new_view empty_repo 1 []) = int (length (undo_log (new_view empty_repo 1 [])))
   \<and> redo sample_clock (new_view empty_repo 1 []) = (None, new_view empty_repo 1 [])
   \<and> in_undo_redo ((new_view empty_repo 1 [])\<lparr>in_undo_redo := True\<rparr>)
   \<and> push_cmd ((new_view empty_repo 1 [])\<lparr>in_undo_redo := True\<rparr>) ''Editar registro''
        (CallUpdateRecord 1 1 [(1, PStr ''a'')]) (CallUpdateRecord 1 1 [(1, PStr ''b'')])
      = (new_view empty_repo 1 [])\<lparr>in_undo_redo := True\<rparr>
   \<and> undo_idx (hist_run sample_clock (new_view empty_repo 1 [])
        [Record ''Borrar registro'' (CallAddRecordWithId 1 1 [] None None) (CallDeleteRecord 1 1),
         Undo, Undo, Redo, Redo])
       \<le> int (length (undo_log (hist_run sample_clock (new_view empty_repo 1 [])
        [Record ''Borrar registro'' (CallAddRecordWithId 1 1 [] None None) (CallDeleteRecord 1 1),
         Undo, Undo, Redo, Redo])))"
  using command_history_invariant [of sample_clock empty_repo 1 "[]"
      "[Record ''Borrar registro'' (CallAddRecordWithId 1 1 [] None None) (CallDeleteRecord 1 1),
         Undo, Undo, Redo, Redo]"
      "new_view empty_repo 1 []"]
    command_history_invariant [of sample_clock empty_repo 1 "[]" "[]"
      "(new_view empty_repo 1 [])\<lparr>in_undo_redo := True\<rparr>" "''Editar registro''"
      "CallUpdateRecord 1 1 [(1, PStr ''a'')]" "CallUpdateRecord 1 1 [(1, PStr ''b'')]"]
  by (simp add: new_view_def)

section \<open>Adding a column twice\<close>

lemma map_of_put_table: "map_of (data_tables (put_table s t tbl)) t = Some tbl"
  by (simp add: put_table_def update_conv')

lemma ensure_column_present:
  "col \<in> set (table_columns s tname) \<Longrightarrow> ensure_column s tname col d = (Inr (), s)"
  by (simp add: ensure_column_def)

lemma ensure_column_cases:
  "ensure_column s tname col d = (Inr (), s') \<Longrightarrow>
     (col \<in> set (table_columns s tname) \<and> s' = s)
     \<or> (col \<notin> set (table_columns s tname) \<and> table_columns s' tname = table_columns s tname @ [col])"
  by (auto simp: ensure_column_def Let_def table_columns_def map_of_put_table
           split: if_splits option.splits)

lemma ensure_column_adds:
  "ensure_column s tname col d = (Inr (), s') \<Longrightarrow> col \<in> set (table_columns s' tname)"
  by (drule ensure_column_cases) auto

lemma ensure_column_distinct:
  "ensure_column s tname col d = (Inr (), s') \<Longrightarrow> distinct (table_columns s tname)
     \<Longrightarrow> distinct (table_columns s' tname)"
  by (drule ensure_column_cases) auto

text \<open>
  C9. \<open>ensure_column\<close> is idempotent: when the physical column is already present the call
  returns without error and leaves the database as it is; so after a call that succeeded,
  a second call for the same column (whatever type it names) succeeds and changes nothing:
  no second column, no change of stored data. Columns that were distinct stay distinct.
\<close>

theorem ensure_column_idempotent:
  "(col \<in> set (table_columns s tname) \<longrightarrow> ensure_column s tname col d = (Inr (), s))
   \<and> (ensure_column s tname col d = (Inr (), s') \<longrightarrow>
        ensure_column s' tname col d' = (Inr (), s')
        \<and> col \<in> set (table_columns s' tname)
        \<and> (distinct (table_columns s tname) \<longrightarrow> distinct (table_columns s' tname)))"
  using ensure_column_present ensure_column_adds ensure_column_distinct by blast

theorem ensure_column_idempotent_witness:
  "fst (ensure_column sample_repo ''data_1'' ''f_9'' DDL_REAL) = Inr ()
   \<and> ensure_column (snd (ensure_column sample_repo ''data_1'' ''f_9'' DDL_REAL)) ''data_1'' ''f_9'' DDL_REAL
     = (Inr (), snd (ensure_column sample_repo ''data_1'' ''f_9'' DDL_REAL))
   \<and> table_columns (snd (ensure_column sample_repo ''data_1'' ''f_9'' DDL_REAL)) ''data_1''
     = [''id'', ''created_at'', ''updated_at'', ''f_1'', ''f_2'', ''f_9'']
   \<and> ''f_1'' \<in> set (table_columns sample_repo ''data_1'')
   \<and> ensure_column sample_repo ''data_1'' ''f_1'' DDL_TEXT = (Inr (), sample_repo)"
proof -
  define s1 where "s1 = snd (ensure_column sample_repo ''data_1'' ''f_9'' DDL_REAL)"
  have first: "ensure_column sample_repo ''data_1'' ''f_9'' DDL_REAL = (Inr (), s1)"
    unfolding s1_def by code_simp
  have second: "ensure_column s1 ''data_1'' ''f_9'' DDL_REAL = (Inr (), s1)"
    using first ensure_column_idempotent [of "''f_9''" sample_repo "''data_1''" DDL_REAL s1 DDL_REAL]
    by blast
  have cols: "table_columns s1 ''data_1'' = [''id'', ''created_at'', ''updated_at'', ''f_1'', ''f_2'', ''f_9'']"
    unfolding s1_def by code_simp
  have present: "''f_1'' \<in> set (table_columns sample_repo ''data_1'')"
    by (simp add: sample_repo_def table_columns_def)
  have third: "ensure_column sample_repo ''data_1'' ''f_1'' DDL_TEXT = (Inr (), sample_repo)"
    using present
      ensure_column_idempotent [of "''f_1''" sample_repo "''data_1''" DDL_TEXT sample_repo DDL_TEXT]
    by blast
  have f: "fst (ensure_column sample_repo ''data_1'' ''f_9'' DDL_REAL) = Inr ()"
    by (simp only: first fst_conv)
  from f second cols present third show ?thesis
    unfolding s1_def by (intro conjI)
qed

section \<open>Reordering fields\<close>

lemma last_index_distinct: "distinct xs \<Longrightarrow> i < length xs \<Longrightarrow> last_index xs (xs ! i) = i"
proof (induction xs arbitrary: i)
  case Nil
  then show ?case by simp
next
  case (Cons a xs)
  then show ?case by (cases i) auto
qed

lemma reordered_step:
  "reordered clock (Suc t0) table_id (i + 1) rest
     (if f_id f = fid \<and> f_table_id f = table_id
      then f\<lparr>f_position := Some i, f_updated_at := clock t0\<rparr> else f)
   = reordered clock t0 table_id i (fid # rest) f"
proof (cases "f_table_id f = table_id")
  case False
  then show ?thesis by (simp add: reordered_def)
next
  case tbl: True
  show ?thesis
  proof (cases "f_id f = fid")
    case same: True
    show ?thesis
    proof (cases "fid \<in> set rest")
      case True
      with tbl same show ?thesis by (simp add: reordered_def)
    next
      case False
      with tbl same show ?thesis by (simp add: reordered_def)
    qed
  next
    case other: False
    show ?thesis
    proof (cases "f_id f \<in> set rest")
      case True
      with tbl other show ?thesis by (simp add: reordered_def)
    next
      case False
      with tbl other show ?thesis by (simp add: reordered_def)
    qed
  qed
qed

lemma reorder_loop_fields:
  "meta_fields (reorder_loop clock table_id i ids s)
     = map (reordered clock (tick s) table_id i ids) (meta_fields s)
   \<and> tick (reorder_loop clock table_id i ids s) = tick s + length ids"
proof (induction ids arbitrary: i s)
  case Nil
  have "reordered clock (tick s) table_id i [] = (\<lambda>f. f)"
    by (rule ext) (simp add: reordered_def)
  then show ?case by simp
next
  case (Cons fid rest)
  have "map (reordered clock (Suc (tick s)) table_id (i + 1) rest)
          (map (\<lambda>f. if f_id f = fid \<and> f_table_id f = table_id
                     then f\<lparr>f_position := Some i, f_updated_at := clock (tick s)\<rparr> else f)
               (meta_fields s))
        = map (reordered clock (tick s) table_id i (fid # rest)) (meta_fields s)"
    unfolding map_map o_def reordered_step ..
  then show ?case
    by (simp add: Cons.IH update_position_def now_iso_def)
qed

lemma reorder_fields_map:
  "meta_fields (reorder_fields clock s table_id ordered)
     = map (reordered clock (tick s) table_id 1 (filter (\<lambda>x. x > 0) ordered)) (meta_fields s)"
proof (cases "filter (\<lambda>x. x > 0) ordered = []")
  case True
  have "reordered clock (tick s) table_id 1 [] = (\<lambda>f. f)"
    by (rule ext) (simp add: reordered_def)
  with True show ?thesis by (simp add: reorder_fields_def)
next
  case False
  then show ?thesis by (simp add: reorder_fields_def reorder_loop_fields)
qed

text \<open>
  C5 (amended). \<open>reorder_fields\<close> adds and removes no field row and never fails. The row at
  each place keeps its id and its table; a row of another table, and a row whose id is not
  among the positive ids given, is unchanged in every column. A row of the table whose id
  is among the positive ids given gets as position the 1-based rank of the last occurrence
  of its id among the positive ids given (non-positive ids are dropped before the ranks
  are counted). When the ids given are positive and distinct this is the 1-based rank in
  the list given.
\<close>

theorem reorder_fields_spec:
  "length (meta_fields (reorder_fields clock s table_id ordered)) = length (meta_fields s)
   \<and> (j < length (meta_fields s) \<longrightarrow>
        f_id (meta_fields (reorder_fields clock s table_id ordered) ! j) = f_id (meta_fields s ! j)
        \<and> f_table_id (meta_fields (reorder_fields clock s table_id ordered) ! j)
            = f_table_id (meta_fields s ! j)
        \<and> (f_table_id (meta_fields s ! j) \<noteq> table_id \<longrightarrow>
             meta_fields (reorder_fields clock s table_id ordered) ! j = meta_fields s ! j)
        \<and> (f_id (meta_fields s ! j) \<notin> set (filter (\<lambda>x. x > 0) ordered) \<longrightarrow>
             meta_fields (reorder_fields clock s table_id ordered) ! j = meta_fields s ! j)
        \<and> (f_table_id (meta_fields s ! j) = table_id
             \<and> f_id (meta_fields s ! j) \<in> set (filter (\<lambda>x. x > 0) ordered) \<longrightarrow>
             f_position (meta_fields (reorder_fields clock s table_id ordered) ! j)
               = Some (1 + int (last_index (filter (\<lambda>x. x > 0) ordered) (f_id (meta_fields s ! j)))))
        \<and> (f_table_id (meta_fields s ! j) = table_id \<and> distinct ordered \<and> (\<forall>x\<in>set ordered. x > 0)
             \<and> k < length ordered \<and> f_id (meta_fields s ! j) = ordered ! k \<longrightarrow>
             f_position (meta_fields (reorder_fields clock s table_id ordered) ! j) = Some (int k + 1)))"
proof -
  have len: "length (meta_fields (reorder_fields clock s table_id ordered)) = length (meta_fields s)"
    by (simp add: reorder_fields_map)
  have row: "j < length (meta_fields s) \<Longrightarrow>
      meta_fields (reorder_fields clock s table_id ordered) ! j
        = reordered clock (tick s) table_id 1 (filter (\<lambda>x. x > 0) ordered) (meta_fields s ! j)"
    by (simp add: reorder_fields_map)
  have all_pos: "(\<forall>x\<in>set ordered. x > 0) \<Longrightarrow> filter (\<lambda>x. x > 0) ordered = ordered"
    by (induction ordered) auto
  have rank: "distinct ordered \<Longrightarrow> (\<forall>x\<in>set ordered. x > 0) \<Longrightarrow> k < length ordered \<Longrightarrow>
      reordered clock (tick s) table_id 1 (filter (\<lambda>x. x > 0) ordered) f = g \<Longrightarrow>
      f_table_id f = table_id \<Longrightarrow> f_id f = ordered ! k \<Longrightarrow> f_position g = Some (int k + 1)" for f g
    by (auto simp: all_pos reordered_def last_index_distinct)
  show ?thesis
    using len row rank by (auto simp: reordered_def)
qed

theorem reorder_fields_spec_witness:
  "f_position (meta_fields (reorder_fields sample_clock sample_repo 1 [2, 1]) ! 0) = Some 2
   \<and> f_position (meta_fields (reorder_fields sample_clock sample_repo 1 [2, 1]) ! 1) = Some 1
   \<and> meta_fields (reorder_fields sample_clock sample_repo 1 [3, 2, 1]) ! 2 = meta_fields sample_repo ! 2
   \<and> meta_fields (reorder_fields sample_clock sample_repo 1 [2]) ! 0 = meta_fields sample_repo ! 0"
  using reorder_fields_spec [of sample_clock sample_repo 1 "[2, 1]" 0 1]
    reorder_fields_spec [of sample_clock sample_repo 1 "[2, 1]" 1 0]
    reorder_fields_spec [of sample_clock sample_repo 1 "[3, 2, 1]" 2 0]
    reorder_fields_spec [of sample_clock sample_repo 1 "[2]" 0 0]
  by (simp add: sample_repo_def)

text \<open>
  The rank is not the rank in the list given when that list holds a non-positive entry:
  with \<open>[0, 2]\<close> field 2 stands second and gets position 1.
\<close>

theorem reorder_fields_rank_counterexample:
  "[0, 2 :: int] ! 1 = 2
   \<and> map (\<lambda>f. (f_id f, f_position f)) (meta_fields (reorder_fields sample_clock sample_repo 1 [0, 2]))
       = [(1, Some 1), (2, Some 1), (3, Some 1)]"
  by (simp add: reorder_fields_def update_position_def now_iso_def sample_repo_def)

section \<open>Adding a field\<close>

lemma meta_fields_ensure_data_table [simp]: "meta_fields (ensure_data_table s t) = meta_fields s"
  by (simp add: ensure_data_table_def Let_def split: option.splits)

lemma meta_fields_put_table [simp]: "meta_fields (put_table s t tbl) = meta_fields s"
  by (simp add: put_table_def)

lemma meta_fields_ensure_column [simp]: "meta_fields (snd (ensure_column s t c d)) = meta_fields s"
  by (simp add: ensure_column_def Let_def split: option.splits)

lemma ensure_column_error: "ensure_column s t c d = (Inl e, s') \<Longrightarrow> e = OperationalError \<and> s' = s"
  by (auto simp: ensure_column_def Let_def split: option.splits if_splits)

lemma ddl_for_field_ok: "ftype \<in> set FIELD_TYPES \<Longrightarrow> \<exists>d. ddl_for_field ftype = Inr d"
  by (auto simp: FIELD_TYPES_def ddl_for_field_def)

lemma add_field_value_error:
  assumes "add_field clock s tid name ftype req options = (Inl (ValueError m), s')"
  shows "s' = s"
proof (cases "py_strip name = [] \<or> ftype \<notin> set FIELD_TYPES")
  case True
  with assms show ?thesis by (auto simp: add_field_def Let_def split: if_splits)
next
  case False
  then obtain d where d: "ddl_for_field ftype = Inr d" using ddl_for_field_ok by blast
  from assms False d show ?thesis
    by (auto simp: add_field_def Let_def now_iso_def split: if_splits prod.splits sum.splits
             dest: ensure_column_error)
qed

lemma relation_in_types: "''relation'' \<in> set FIELD_TYPES" and select_in_types: "''select'' \<in> set FIELD_TYPES"
  by (simp_all add: FIELD_TYPES_def)

lemma add_field_relation_error_iff:
  "(\<exists>m. fst (add_field clock s tid name ''relation'' req options) = Inl (ValueError m))
     \<longleftrightarrow> py_strip name = []
          \<or> \<not> relation_target_ok (case options of None \<Rightarrow> [] | Some d \<Rightarrow> d)
          \<or> \<not> relation_display_ok (case options of None \<Rightarrow> [] | Some d \<Rightarrow> d)"
proof -
  obtain d where d: "ddl_for_field ''relation'' = Inr d"
    using ddl_for_field_ok [OF relation_in_types] by blast
  show ?thesis
    using relation_in_types d
    by (auto simp: add_field_def Let_def now_iso_def split: if_splits prod.splits sum.splits
             dest: ensure_column_error)
qed

lemma relation_target_ok_iff:
  "relation_target_ok opts \<longleftrightarrow>
     (\<exists>i. map_of opts ''target_table_id'' = Some (PInt i) \<and> 0 < i)
     \<or> map_of opts ''target_table_id'' = Some (PBool True)"
proof (cases "map_of opts ''target_table_id''")
  case None
  then show ?thesis by (simp add: relation_target_ok_def)
next
  case (Some v)
  then show ?thesis by (cases v) (auto simp: relation_target_ok_def or_zero_def)
qed

lemma relation_display_ok_iff:
  "relation_display_ok opts \<longleftrightarrow>
     (case map_of opts ''display_field_id'' of None \<Rightarrow> True | Some v \<Rightarrow> (\<exists>i. v = PInt i) \<or> (\<exists>b. v = PBool b))"
proof (cases "map_of opts ''display_field_id''")
  case None
  then show ?thesis by (simp add: relation_display_ok_def)
next
  case (Some v)
  then show ?thesis by (cases v) (auto simp: relation_display_ok_def)
qed

lemma foldr_max_ge: "x \<in> set xs \<Longrightarrow> x \<le> foldr max xs (k::int)"
  by (induction xs) auto

lemma find_append_new:
  "\<forall>x\<in>set xs. \<not> P x \<Longrightarrow> P y \<Longrightarrow> find P (xs @ [y]) = Some y"
  by (induction xs) auto

lemma ensure_column_meta_fields:
  "ensure_column s t c d = (r, s') \<Longrightarrow> meta_fields s' = meta_fields s"
  using meta_fields_ensure_column [of s t c d] by simp

lemma add_field_success:
  assumes "add_field clock s tid name ftype req options = (Inr fid, s')"
  shows "fid = foldr max (map f_id (meta_fields s)) (seq_fields s) + 1
     \<and> meta_fields s' = meta_fields s @
        [\<lparr>f_id = fid, f_table_id = tid, f_name = py_strip name, f_ftype = ftype,
          f_required = (if req then 1 else 0), f_active = 1,
          f_position = Some (next_field_position s tid),
          f_options_json = PDict (case options of None \<Rightarrow> [] | Some d \<Rightarrow> d),
          f_created_at = clock (tick s), f_updated_at = clock (tick s)\<rparr>]"
  using assms
  by (auto simp: add_field_def Let_def now_iso_def next_field_position_def
           split: if_splits prod.splits sum.splits dest!: ensure_column_meta_fields)

lemma add_field_stores:
  assumes "add_field clock s tid name ftype req options = (Inr fid, s')"
  shows "stored_options s' fid = Some (PDict (case options of None \<Rightarrow> [] | Some d \<Rightarrow> d))"
proof -
  from add_field_success [OF assms] obtain row where
    fid: "fid = foldr max (map f_id (meta_fields s)) (seq_fields s) + 1" and
    row: "meta_fields s' = meta_fields s @ [row]" "f_id row = fid"
     "f_options_json row = PDict (case options of None \<Rightarrow> [] | Some d \<Rightarrow> d)"
    by simp
  have "\<forall>f\<in>set (meta_fields s). f_id f \<noteq> fid"
    using foldr_max_ge [of _ "map f_id (meta_fields s)" "seq_fields s"] fid by fastforce
  then have "find (\<lambda>f. f_id f = fid) (meta_fields s') = Some row"
    unfolding row(1) using row(2) by (intro find_append_new) auto
  then show ?thesis by (simp add: stored_options_def row)
qed

text \<open>
  C2 (amended). For \<open>ftype = relation\<close>, \<open>add_field\<close> raises a validation error
  (\<open>ValueError\<close>) exactly when the trimmed name is empty, or \<open>target_table_id\<close> is not an
  integer greater than 0 (the boolean \<open>True\<close> counts as the integer 1), or
  \<open>display_field_id\<close> is present and not an integer. Whether a table with that id exists
  is not looked at. A call that raises a validation error, for any \<open>ftype\<close>, returns the
  database it was given.
\<close>

theorem add_field_relation_validation:
  "((\<exists>m. fst (add_field clock s table_id name ''relation'' required options) = Inl (ValueError m))
      \<longleftrightarrow> py_strip name = []
           \<or> \<not> ((\<exists>i. map_of (case options of None \<Rightarrow> [] | Some d \<Rightarrow> d) ''target_table_id''
                          = Some (PInt i) \<and> 0 < i)
                 \<or> map_of (case options of None \<Rightarrow> [] | Some d \<Rightarrow> d) ''target_table_id''
                          = Some (PBool True))
           \<or> \<not> (case map_of (case options of None \<Rightarrow> [] | Some d \<Rightarrow> d) ''display_field_id'' of
                    None \<Rightarrow> True
                  | Some v \<Rightarrow> (\<exists>i. v = PInt i) \<or> (\<exists>b. v = PBool b)))
   \<and> (add_field clock s table_id name ftype required options = (Inl (ValueError m), s') \<longrightarrow> s' = s)"
  unfolding add_field_relation_error_iff relation_target_ok_iff relation_display_ok_iff
  using add_field_value_error by blast

theorem add_field_relation_validation_witness:
  "add_field sample_clock sample_repo 1 ''Owner'' ''relation'' False (Some [(''target_table_id'', PInt 0)])
     = (Inl (ValueError ''En relation debes indicar target_table_id (>0).''), sample_repo)
   \<and> (\<exists>m. fst (add_field sample_clock sample_repo 1 ''Owner'' ''relation'' False
                  (Some [(''target_table_id'', PStr ''2'')])) = Inl (ValueError m))"
proof -
  have e: "fst (add_field sample_clock sample_repo 1 ''Owner'' ''relation'' False
                  (Some [(''target_table_id'', PInt 0)]))
             = Inl (ValueError ''En relation debes indicar target_table_id (>0).'')"
    by code_simp
  then have "add_field sample_clock sample_repo 1 ''Owner'' ''relation'' False
                  (Some [(''target_table_id'', PInt 0)])
             = (Inl (ValueError ''En relation debes indicar target_table_id (>0).''),
                snd (add_field sample_clock sample_repo 1 ''Owner'' ''relation'' False
                  (Some [(''target_table_id'', PInt 0)])))"
    by (metis prod.collapse)
  with add_field_relation_validation
  have unchanged: "snd (add_field sample_clock sample_repo 1 ''Owner'' ''relation'' False
                  (Some [(''target_table_id'', PInt 0)])) = sample_repo"
    by blast
  have raised: "\<exists>m. fst (add_field sample_clock sample_repo 1 ''Owner'' ''relation'' False
                  (Some [(''target_table_id'', PStr ''2'')])) = Inl (ValueError m)"
    using add_field_relation_validation [of sample_clock sample_repo 1 "''Owner''" False
            "Some [(''target_table_id'', PStr ''2'')]"]
    by simp
  from e unchanged raised show ?thesis by (simp add: prod_eq_iff)
qed

text \<open>
  A positive \<open>target_table_id\<close> that names no table is accepted: the sample database has
  no table 999, and the field is created with id 4.
\<close>

theorem add_field_relation_missing_target_counterexample:
  "999 \<notin> set (map t_id (meta_tables sample_repo))
   \<and> fst (add_field sample_clock sample_repo 1 ''Owner'' ''relation'' False
            (Some [(''target_table_id'', PInt 999), (''display_field_id'', PInt 0)])) = Inr 4"
  by code_simp

section \<open>The option list of a select field\<close>

lemma remdups_drop_mid: "x \<in> set zs \<Longrightarrow> remdups (ys @ x # zs) = remdups (ys @ zs)"
  by (induction ys) auto

lemma dedupe_loop_eq:
  "distinct acc \<Longrightarrow> dedupe_loop (set acc) acc xs = rev (remdups (rev (acc @ xs)))"
proof (induction xs arbitrary: acc)
  case Nil
  then show ?case by (simp add: distinct_remdups_id)
next
  case (Cons x xs)
  show ?case
  proof (cases "x \<in> set acc")
    case True
    then have "remdups (rev xs @ x # rev acc) = remdups (rev xs @ rev acc)"
      by (intro remdups_drop_mid) simp
    with True Cons show ?thesis by simp
  next
    case False
    with Cons.prems have "distinct (acc @ [x])" by simp
    from Cons.IH [OF this] False show ?thesis by simp
  qed
qed

lemma dedupe_eq: "dedupe_loop {} [] xs = rev (remdups (rev xs))"
  using dedupe_loop_eq [of "[]" xs] by simp


lemma get_data_select:
  "d_ftype dlg = ''select'' \<Longrightarrow>
     fd_options (get_data dlg)
       = [(''options'', PList (map PStr (rev (remdups (rev (select_parts (d_select_text dlg)))))))]"
  by (simp add: get_data_def dedupe_eq)

text \<open>
  C3 (amended). \<open>add_field\<close> stores the options it is given as they are: a select field
  created with an option list holds that list, duplicates included. The de-duplication is
  done by the dialog: \<open>get_data\<close> keeps the first occurrence of each non-empty trimmed
  piece of the text, in the order of the text, so the list it hands over has no
  duplicates and the same members; a select field created through the dialog stores that
  list.
\<close>

theorem select_options_stored:
  "(add_field clock s table_id name ''select'' required (Some options) = (Inr fid, s') \<longrightarrow>
      stored_options s' fid = Some (PDict options))
   \<and> (d_ftype dlg = ''select'' \<longrightarrow>
        fd_options (get_data dlg)
          = [(''options'', PList (map PStr (rev (remdups (rev (select_parts (d_select_text dlg)))))))])
   \<and> (d_ftype dlg = ''select'' \<and> panel_add_field clock s table_id dlg = (Inr fid, s') \<longrightarrow>
        stored_options s' fid
          = Some (PDict [(''options'',
                PList (map PStr (rev (remdups (rev (select_parts (d_select_text dlg)))))))]))
   \<and> distinct (dedupe_loop {} [] parts)
   \<and> set (dedupe_loop {} [] parts) = set parts"
proof -
  have a: "add_field clock s table_id name ''select'' required (Some options) = (Inr fid, s') \<longrightarrow>
      stored_options s' fid = Some (PDict options)"
    using add_field_stores [of clock s table_id name "''select''" required "Some options" fid s']
    by simp
  have b: "d_ftype dlg = ''select'' \<longrightarrow>
        fd_options (get_data dlg)
          = [(''options'', PList (map PStr (rev (remdups (rev (select_parts (d_select_text dlg)))))))]"
    by (simp add: get_data_select)
  have c: "d_ftype dlg = ''select'' \<and> panel_add_field clock s table_id dlg = (Inr fid, s') \<longrightarrow>
        stored_options s' fid
          = Some (PDict [(''options'',
                PList (map PStr (rev (remdups (rev (select_parts (d_select_text dlg)))))))])"
  proof (intro impI, elim conjE)
    assume sel: "d_ftype dlg = ''select''"
      and ok: "panel_add_field clock s table_id dlg = (Inr fid, s')"
    from ok have "stored_options s' fid = Some (PDict (fd_options (get_data dlg)))"
      using add_field_stores
        [of clock s table_id "fd_name (get_data dlg)" "fd_ftype (get_data dlg)"
            "fd_required (get_data dlg)" "Some (fd_options (get_data dlg))" fid s']
      by (simp add: panel_add_field_def Let_def)
    with sel show "stored_options s' fid
          = Some (PDict [(''options'',
                PList (map PStr (rev (remdups (rev (select_parts (d_select_text dlg)))))))])"
      by (simp add: get_data_select)
  qed
  have d: "distinct (dedupe_loop {} [] parts)" and e: "set (dedupe_loop {} [] parts) = set parts"
    by (simp_all add: dedupe_eq)
  from a b c d e show ?thesis by blast
qed

theorem select_options_stored_witness:
  "fst (panel_add_field sample_clock sample_repo 1
          \<lparr>d_name = ''Status'', d_ftype = ''select'', d_required = False,
           d_select_text = ''Open, Done'' @ [CHR 0x0A] @ ''Open'',
           d_rel_table = None, d_rel_display = None\<rparr>) = Inr 4
   \<and> stored_options
        (snd (panel_add_field sample_clock sample_repo 1
          \<lparr>d_name = ''Status'', d_ftype = ''select'', d_required = False,
           d_select_text = ''Open, Done'' @ [CHR 0x0A] @ ''Open'',
           d_rel_table = None, d_rel_display = None\<rparr>)) 4
      = Some (PDict [(''options'', PList [PStr ''Open'', PStr ''Done''])])
   \<and> stored_options
        (snd (add_field sample_clock sample_repo 1 ''Status'' ''select'' False
               (Some [(''options'', PList [PStr ''Open'', PStr ''Done''])]))) 4
      = Some (PDict [(''options'', PList [PStr ''Open'', PStr ''Done''])])"
proof -
  define dlg where "dlg = \<lparr>d_name = ''Status'', d_ftype = ''select'', d_required = False,
           d_select_text = ''Open, Done'' @ [CHR 0x0A] @ ''Open'',
           d_rel_table = None, d_rel_display = None\<rparr>"
  define s1 where "s1 = snd (panel_add_field sample_clock sample_repo 1 dlg)"
  define s2 where "s2 = snd (add_field sample_clock sample_repo 1 ''Status'' ''select'' False
               (Some [(''options'', PList [PStr ''Open'', PStr ''Done''])]))"
  have sel: "d_ftype dlg = ''select''" by (simp add: dlg_def)
  have parts: "rev (remdups (rev (select_parts (d_select_text dlg)))) = [''Open'', ''Done'']"
    unfolding dlg_def by code_simp
  have f1: "fst (panel_add_field sample_clock sample_repo 1 dlg) = Inr 4"
    unfolding dlg_def by code_simp
  then have r1: "panel_add_field sample_clock sample_repo 1 dlg = (Inr 4, s1)"
    by (simp add: s1_def prod_eq_iff)
  have "fst (add_field sample_clock sample_repo 1 ''Status'' ''select'' False
               (Some [(''options'', PList [PStr ''Open'', PStr ''Done''])])) = Inr 4"
    by code_simp
  then have r2: "add_field sample_clock sample_repo 1 ''Status'' ''select'' False
               (Some [(''options'', PList [PStr ''Open'', PStr ''Done''])]) = (Inr 4, s2)"
    by (simp add: s2_def prod_eq_iff)
  from sel r1 select_options_stored [of sample_clock sample_repo 1 _ _ _ 4 s1 dlg]
  have st1: "stored_options s1 4 = Some (PDict [(''options'', PList [PStr ''Open'', PStr ''Done''])])"
    by (simp add: parts)
  from r2 select_options_stored [of sample_clock sample_repo 1 "''Status''" False
          "[(''options'', PList [PStr ''Open'', PStr ''Done''])]" 4 s2]
  have st2: "stored_options s2 4 = Some (PDict [(''options'', PList [PStr ''Open'', PStr ''Done''])])"
    by simp
  from f1 st1 st2 show ?thesis
    unfolding s1_def s2_def dlg_def by (intro conjI)
qed

text \<open>
  Given a list with a duplicate, \<open>add_field\<close> stores the list with the duplicate.
\<close>

theorem select_options_duplicates_counterexample:
  "fst (add_field sample_clock sample_repo 1 ''Status'' ''select'' False
          (Some [(''options'', PList [PStr ''Open'', PStr ''Done'', PStr ''Open''])])) = Inr 4
   \<and> stored_options
        (snd (add_field sample_clock sample_repo 1 ''Status'' ''select'' False
               (Some [(''options'', PList [PStr ''Open'', PStr ''Done'', PStr ''Open''])]))) 4
      = Some (PDict [(''options'', PList [PStr ''Open'', PStr ''Done'', PStr ''Open''])])"
  by code_simp

end
